theory Spec2Isabelle
  imports Main
begin

section \<open>Strings and characters\<close>

text \<open>
  The migrator is JavaScript. Its strings are modelled as \<open>string\<close> (lists of
  \<open>char\<close>), one \<open>char\<close> per code unit; the case mappings below are the ASCII part of
  \<open>toLowerCase\<close> / \<open>toUpperCase\<close>.  All patterns of the program are written in ASCII.
\<close>

definition code :: "char \<Rightarrow> nat" where
  "code c = of_char c"

definition inRange :: "char \<Rightarrow> char \<Rightarrow> char \<Rightarrow> bool" where
  "inRange a b c = (code a \<le> code c \<and> code c \<le> code b)"

definition lowers :: string where
  "lowers = ''abcdefghijklmnopqrstuvwxyz''"

definition uppers :: string where
  "uppers = ''ABCDEFGHIJKLMNOPQRSTUVWXYZ''"

definition lowerChar :: "char \<Rightarrow> char" where
  "lowerChar c = (case map_of (zip uppers lowers) c of Some l \<Rightarrow> l | None \<Rightarrow> c)"

definition upperChar :: "char \<Rightarrow> char" where
  "upperChar c = (case map_of (zip lowers uppers) c of Some u \<Rightarrow> u | None \<Rightarrow> c)"

definition toLowerCase :: "string \<Rightarrow> string" where
  "toLowerCase s = map lowerChar s"

definition toUpperCase :: "string \<Rightarrow> string" where
  "toUpperCase s = map upperChar s"

text \<open>The class \<open>\s\<close>: tab, line feed, vertical tab, form feed, carriage return, space
  and the no-break space.\<close>

definition isSpace :: "char \<Rightarrow> bool" where
  "isSpace c = (c \<in> set [CHR 0x09, CHR 0x0A, CHR 0x0B, CHR 0x0C, CHR 0x0D, CHR 0x20, CHR 0xA0])"

section \<open>Regular expressions with backtracking\<close>

text \<open>
  The program is a chain of \<open>String.prototype.replace\<close> calls on regular expressions.
  Patterns are kept as syntax trees and run by a backtracking matcher written, as in the
  ECMAScript specification, with continuations: the first alternative is tried first, a
  greedy quantifier tries one more iteration before it gives up, a lazy one tries the
  continuation first.  An iteration of a quantifier that consumes nothing fails.
\<close>

datatype citem = Ch char | Rng char char | WS | NWS

datatype quant = Greedy | Lazy

datatype re =
    Lit string
  | Cls bool "citem list"
  | Eps
  | Seq re re
  | Alt re re
  | Star quant re
  | Grp nat re
  | Bol
  | Eol
  | NLook re

type_synonym caps = "nat \<Rightarrow> string option"

text \<open>A matcher state: are we at index 0, the input still to read, the captures.\<close>

type_synonym mstate = "bool \<times> string \<times> caps"

text \<open>\<open>Canonicalize\<close> of the specification, for the \<open>i\<close> flag.\<close>

definition canon :: "bool \<Rightarrow> char \<Rightarrow> char" where
  "canon ic c = (if ic then upperChar c else c)"

fun citemMatch :: "bool \<Rightarrow> citem \<Rightarrow> char \<Rightarrow> bool" where
  "citemMatch ic (Ch a) c = (canon ic a = canon ic c)"
| "citemMatch ic (Rng a b) c =
     (inRange a b c \<or> (ic \<and> (inRange a b (upperChar c) \<or> inRange a b (lowerChar c))))"
| "citemMatch ic WS c = isSpace c"
| "citemMatch ic NWS c = (\<not> isSpace c)"

definition clsMatch :: "bool \<Rightarrow> bool \<Rightarrow> citem list \<Rightarrow> char \<Rightarrow> bool" where
  "clsMatch ic neg items c = (list_ex (\<lambda>i. citemMatch ic i c) items \<noteq> neg)"

fun litMatch :: "bool \<Rightarrow> string \<Rightarrow> string \<Rightarrow> string option" where
  "litMatch ic [] s = Some s"
| "litMatch ic (x # xs) [] = None"
| "litMatch ic (x # xs) (y # ys) = (if canon ic x = canon ic y then litMatch ic xs ys else None)"

fun m :: "bool \<Rightarrow> re \<Rightarrow> mstate \<Rightarrow> (mstate \<Rightarrow> mstate option) \<Rightarrow> mstate option" where
  "m ic (Lit l) (b, s, c) k =
     (case litMatch ic l s of None \<Rightarrow> None | Some s' \<Rightarrow> k (b \<and> l = [], s', c))"
| "m ic (Cls neg items) (b, s, c) k =
     (case s of [] \<Rightarrow> None
      | x # xs \<Rightarrow> if clsMatch ic neg items x then k (False, xs, c) else None)"
| "m ic Eps st k = k st"
| "m ic (Seq r1 r2) st k = m ic r1 st (\<lambda>st'. m ic r2 st' k)"
| "m ic (Alt r1 r2) st k = (case m ic r1 st k of Some x \<Rightarrow> Some x | None \<Rightarrow> m ic r2 st k)"
| "m ic (Star Greedy r) (b, s, c) k =
     (case m ic r (b, s, c)
             (\<lambda>(b', s', c'). if length s' < length s then m ic (Star Greedy r) (b', s', c') k else None)
      of Some x \<Rightarrow> Some x | None \<Rightarrow> k (b, s, c))"
| "m ic (Star Lazy r) (b, s, c) k =
     (case k (b, s, c) of Some x \<Rightarrow> Some x
      | None \<Rightarrow> m ic r (b, s, c)
             (\<lambda>(b', s', c'). if length s' < length s then m ic (Star Lazy r) (b', s', c') k else None))"
| "m ic (Grp i r) (b, s, c) k =
     m ic r (b, s, c) (\<lambda>(b', s', c'). k (b', s', c'(i \<mapsto> take (length s - length s') s)))"
| "m ic Bol (b, s, c) k = (if b then k (b, s, c) else None)"
| "m ic Eol (b, s, c) k = (if s = [] then k (b, s, c) else None)"
| "m ic (NLook r) st k = (case m ic r st Some of None \<Rightarrow> k st | Some _ \<Rightarrow> None)"

abbreviation Plus :: "quant \<Rightarrow> re \<Rightarrow> re" where
  "Plus q r \<equiv> Seq r (Star q r)"

abbreviation Opt :: "re \<Rightarrow> re" where
  "Opt r \<equiv> Alt r Eps"

fun cat :: "re list \<Rightarrow> re" where
  "cat [] = Eps"
| "cat [r] = r"
| "cat (r # rs) = Seq r (cat rs)"

fun alts :: "re list \<Rightarrow> re" where
  "alts [] = Eps"
| "alts [r] = r"
| "alts (r # rs) = Alt r (alts rs)"

text \<open>The number of capture groups of a pattern.\<close>

fun ngroups :: "re \<Rightarrow> nat" where
  "ngroups (Seq a b) = max (ngroups a) (ngroups b)"
| "ngroups (Alt a b) = max (ngroups a) (ngroups b)"
| "ngroups (Star q a) = ngroups a"
| "ngroups (Grp i a) = max i (ngroups a)"
| "ngroups (NLook a) = ngroups a"
| "ngroups _ = 0"

section \<open>\<open>String.prototype.replace\<close> and \<open>match\<close>\<close>

text \<open>A replacer is given the matched text, the captures, the text before the match
  and the text after it.\<close>

type_synonym replacer = "string \<Rightarrow> caps \<Rightarrow> string \<Rightarrow> string \<Rightarrow> string"

text \<open>
  \<open>str.replace(/r/g, f)\<close>: the pattern is tried at every index from the left; after a
  match the search goes on behind it, after an empty match one character further.
  \<open>rpre\<close> is the input already passed, last character first.
\<close>

function gsub :: "bool \<Rightarrow> re \<Rightarrow> replacer \<Rightarrow> string \<Rightarrow> string \<Rightarrow> string" where
  "gsub ic r f rpre s =
     (case m ic r (rpre = [], s, Map.empty) Some of
        None \<Rightarrow> (case s of [] \<Rightarrow> [] | x # xs \<Rightarrow> x # gsub ic r f (x # rpre) xs)
      | Some (b, s', c) \<Rightarrow>
          (if length s' < length s
           then f (take (length s - length s') s) c (rev rpre) s'
                @ gsub ic r f (rev (take (length s - length s') s) @ rpre) s'
           else f [] c (rev rpre) s
                @ (case s of [] \<Rightarrow> [] | x # xs \<Rightarrow> x # gsub ic r f (x # rpre) xs)))"
  by pat_completeness auto
termination
  by (relation "measure (\<lambda>(ic, r, f, rpre, s). length s)") auto

definition replaceG :: "bool \<Rightarrow> re \<Rightarrow> replacer \<Rightarrow> string \<Rightarrow> string" where
  "replaceG ic r f s = gsub ic r f [] s"

text \<open>The same loop with a replacer that reads and updates a state (a callback that
  pushes onto an array).\<close>

function gsubS :: "bool \<Rightarrow> re \<Rightarrow> ('st \<Rightarrow> string \<Rightarrow> string \<times> 'st) \<Rightarrow> 'st \<Rightarrow> string \<Rightarrow> string \<Rightarrow> string \<times> 'st" where
  "gsubS ic r f st rpre s =
     (case m ic r (rpre = [], s, Map.empty) Some of
        None \<Rightarrow> (case s of [] \<Rightarrow> ([], st)
                 | x # xs \<Rightarrow> (case gsubS ic r f st (x # rpre) xs of (out, st') \<Rightarrow> (x # out, st')))
      | Some (b, s', c) \<Rightarrow>
          (if length s' < length s
           then (case f st (take (length s - length s') s) of
                   (rep, st1) \<Rightarrow>
                     (case gsubS ic r f st1 (rev (take (length s - length s') s) @ rpre) s' of
                        (out, st2) \<Rightarrow> (rep @ out, st2)))
           else (case f st [] of
                   (rep, st1) \<Rightarrow>
                     (case s of [] \<Rightarrow> (rep, st1)
                      | x # xs \<Rightarrow> (case gsubS ic r f st1 (x # rpre) xs of
                                    (out, st2) \<Rightarrow> (rep @ x # out, st2))))))"
  by pat_completeness auto
termination
  by (relation "measure (\<lambda>(ic, r, f, st, rpre, s). length s)") auto

text \<open>\<open>str.match(/r/)\<close> without the \<open>g\<close> flag: the leftmost match, with its
  captures.\<close>

fun search :: "bool \<Rightarrow> re \<Rightarrow> bool \<Rightarrow> string \<Rightarrow> (string \<times> caps) option" where
  "search ic r atStart [] =
     (case m ic r (atStart, [], Map.empty) Some of
        None \<Rightarrow> None | Some (b, s', c) \<Rightarrow> Some ([], c))"
| "search ic r atStart (x # xs) =
     (case m ic r (atStart, x # xs, Map.empty) Some of
        None \<Rightarrow> search ic r False xs
      | Some (b, s', c) \<Rightarrow> Some (take (length (x # xs) - length s') (x # xs), c))"

definition matchFirst :: "bool \<Rightarrow> re \<Rightarrow> string \<Rightarrow> (string \<times> caps) option" where
  "matchFirst ic r s = search ic r True s"

text \<open>\<open>RegExp.prototype.test\<close>.\<close>

definition test :: "bool \<Rightarrow> re \<Rightarrow> string \<Rightarrow> bool" where
  "test ic r s = (matchFirst ic r s \<noteq> None)"

text \<open>\<open>str.match(/r/g)\<close>: every match from the left, \<open>None\<close> (JavaScript's
  \<open>null\<close>) when there is none.\<close>

function allMatches :: "bool \<Rightarrow> re \<Rightarrow> bool \<Rightarrow> string \<Rightarrow> string list" where
  "allMatches ic r atStart s =
     (case m ic r (atStart, s, Map.empty) Some of
        None \<Rightarrow> (case s of [] \<Rightarrow> [] | x # xs \<Rightarrow> allMatches ic r False xs)
      | Some (b, s', c) \<Rightarrow>
          (if length s' < length s
           then take (length s - length s') s # allMatches ic r False s'
           else [] # (case s of [] \<Rightarrow> [] | x # xs \<Rightarrow> allMatches ic r False xs)))"
  by pat_completeness auto
termination
  by (relation "measure (\<lambda>(ic, r, atStart, s). length s)") auto

definition matchG :: "bool \<Rightarrow> re \<Rightarrow> string \<Rightarrow> string list option" where
  "matchG ic r s = (case allMatches ic r True s of [] \<Rightarrow> None | x # xs \<Rightarrow> Some (x # xs))"

text \<open>
  \<open>GetSubstitution\<close>: the replacement text of a template.  \<open>$$\<close> is a dollar,
  \<open>$&\<close> the match, \<open>$`\<close> the text before it, \<open>$'\<close> the text after it, \<open>$n\<close> and
  \<open>$nn\<close> a capture when the pattern has that many groups (\<open>n\<close> is the number of
  groups; there are no named groups).  Any other dollar stands for itself.
\<close>

definition digitVal :: "char \<Rightarrow> nat" where
  "digitVal c = code c - 48"

definition isDigit :: "char \<Rightarrow> bool" where
  "isDigit c = inRange CHR ''0'' CHR ''9'' c"

definition capText :: "caps \<Rightarrow> nat \<Rightarrow> string" where
  "capText c i = (case c i of None \<Rightarrow> [] | Some t \<Rightarrow> t)"

fun getSubstitution :: "nat \<Rightarrow> string \<Rightarrow> caps \<Rightarrow> string \<Rightarrow> string \<Rightarrow> string \<Rightarrow> string" where
  "getSubstitution n mt c pre post [] = []"
| "getSubstitution n mt c pre post [x] = [x]"
| "getSubstitution n mt c pre post (x # y # t) =
     (if x \<noteq> CHR ''$'' then x # getSubstitution n mt c pre post (y # t)
      else if y = CHR ''$'' then CHR ''$'' # getSubstitution n mt c pre post t
      else if y = CHR ''&'' then mt @ getSubstitution n mt c pre post t
      else if y = CHR 0x60 then pre @ getSubstitution n mt c pre post t
      else if y = CHR 0x27 then post @ getSubstitution n mt c pre post t
      else if isDigit y then
        (case t of
           z # t' \<Rightarrow>
             if isDigit z \<and> 1 \<le> 10 * digitVal y + digitVal z \<and> 10 * digitVal y + digitVal z \<le> n
             then capText c (10 * digitVal y + digitVal z) @ getSubstitution n mt c pre post t'
             else if 1 \<le> digitVal y \<and> digitVal y \<le> n
             then capText c (digitVal y) @ getSubstitution n mt c pre post t
             else x # getSubstitution n mt c pre post (y # t)
         | [] \<Rightarrow>
             if 1 \<le> digitVal y \<and> digitVal y \<le> n
             then capText c (digitVal y)
             else [x, y])
      else x # getSubstitution n mt c pre post (y # t))"

text \<open>\<open>str.replace(/r/g, 'template')\<close>.\<close>

definition template :: "re \<Rightarrow> string \<Rightarrow> replacer" where
  "template r t = (\<lambda>mt c pre post. getSubstitution (ngroups r) mt c pre post t)"

text \<open>\<open>str.replace(/r/g, (match, p1, ...) => ...)\<close>: what a callback returns is taken
  as it is.\<close>

definition callback :: "(string \<Rightarrow> caps \<Rightarrow> string) \<Rightarrow> replacer" where
  "callback f = (\<lambda>mt c pre post. f mt c)"

section \<open>The filename and slug sanitizer\<close>

text \<open>\<^verbatim>\<open>text.toLowerCase().replace(/[^a-z0-9]+/g, '-').replace(/^-|-$/g, '')\<close>\<close>

definition reNonAlnum :: re where
  "reNonAlnum = Plus Greedy (Cls True [Rng CHR ''a'' CHR ''z'', Rng CHR ''0'' CHR ''9''])"

definition reEdgeDash :: re where
  "reEdgeDash = Alt (Seq Bol (Lit ''-'')) (Seq (Lit ''-'') Eol)"

definition slugify :: "string \<Rightarrow> string" where
  "slugify text =
     replaceG False reEdgeDash (template reEdgeDash [])
       (replaceG False reNonAlnum (template reNonAlnum ''-'')
         (toLowerCase text))"

text \<open>\<^verbatim>\<open>filename.replace(/[<>:"/\\|?*]/g, '_').replace(/\s+/g, '_')\<close>\<close>

definition reInvalidChar :: re where
  "reInvalidChar = Cls False [Ch CHR ''<'', Ch CHR ''>'', Ch CHR '':'', Ch CHR 0x22, Ch CHR ''/'',
     Ch CHR 0x5C, Ch CHR ''|'', Ch CHR ''?'', Ch CHR ''*'']"

definition reSpaces :: re where
  "reSpaces = Plus Greedy (Cls False [WS])"

definition sanitizeFilename :: "string \<Rightarrow> string" where
  "sanitizeFilename filename =
     replaceG False reSpaces (template reSpaces ''_'')
       (replaceG False reInvalidChar (template reInvalidChar ''_'') filename)"


section \<open>The dialect normalizer\<close>

text \<open>Pieces that many patterns share: \<open>[^>]\<close>, \<open>[^"]\<close>, \<open>[\s\S]\<close>, \<open>\s\<close>.\<close>

definition notGt :: re where "notGt = Cls True [Ch CHR ''>'']"
definition notQuote :: re where "notQuote = Cls True [Ch CHR 0x22]"
definition anyChar :: re where "anyChar = Cls False [WS, NWS]"
definition space :: re where "space = Cls False [WS]"

text \<open>A capture as a template literal \<open>${p1}\<close> prints it.\<close>

definition interp :: "caps \<Rightarrow> nat \<Rightarrow> string" where
  "interp c i = (case c i of None \<Rightarrow> ''undefined'' | Some t \<Rightarrow> t)"

text \<open>\<open>Array.prototype.join\<close>.\<close>

fun join :: "string \<Rightarrow> string list \<Rightarrow> string" where
  "join sep [] = []"
| "join sep [x] = x"
| "join sep (x # y # xs) = x @ sep @ join sep (y # xs)"

subsection \<open>Blob images\<close>

record attachment =
  fileId :: "string option"
  path :: string

text \<open>
  \<^verbatim>\<open>const fileIdMap = {}; attachments.forEach(att => { if (att.fileId) fileIdMap[att.fileId] = att.path; })\<close>
  The map is a plain object: an assignment to \<open>__proto__\<close> of a string is without effect,
  and a lookup \<open>fileIdMap[fileId]\<close> that finds no own property finds the properties of
  \<open>Object.prototype\<close>.  The parameter \<open>protoText\<close> says which names those are and what text
  each of them gives in a template literal (text that the JavaScript engine defines).
\<close>

fun buildFileIdMap :: "attachment list \<Rightarrow> (string \<rightharpoonup> string) \<Rightarrow> (string \<rightharpoonup> string)" where
  "buildFileIdMap [] mp = mp"
| "buildFileIdMap (att # atts) mp =
     buildFileIdMap atts
       (case fileId att of
          None \<Rightarrow> mp
        | Some fid \<Rightarrow> if fid = [] \<or> fid = ''__proto__'' then mp else mp(fid \<mapsto> path att))"

text \<open>The value of \<open>fileIdMap[fileId]\<close> when it is truthy, as text.\<close>

definition lookupFileId :: "(string \<Rightarrow> string option) \<Rightarrow> (string \<rightharpoonup> string) \<Rightarrow> string \<Rightarrow> string option" where
  "lookupFileId protoText mp fid =
     (case mp fid of
        Some p \<Rightarrow> if p = [] then None else Some p
      | None \<Rightarrow> protoText fid)"

text \<open>\<^verbatim>\<open>/<img[^>]*data-fileid="([^"]+)"[^>]*>/gi\<close>\<close>

definition reBlobImg :: re where
  "reBlobImg = cat [Lit ''<img'', Star Greedy notGt, Lit ''data-fileid=\"'',
     Grp 1 (Plus Greedy notQuote), Lit ''\"'', Star Greedy notGt, Lit ''>'']"

text \<open>\<^verbatim>\<open>/alt="([^"]*)"/\<close>\<close>

definition reAlt :: re where
  "reAlt = cat [Lit ''alt=\"'', Grp 1 (Star Greedy notQuote), Lit ''\"'']"

definition blobImage :: "(string \<Rightarrow> string option) \<Rightarrow> (string \<rightharpoonup> string) \<Rightarrow> string \<Rightarrow> caps \<Rightarrow> string" where
  "blobImage protoText mp mt c =
     (case lookupFileId protoText mp (interp c 1) of
        Some localPath \<Rightarrow>
          ''<img src=\"'' @ localPath @ ''\" alt=\"''
            @ (case matchFirst False reAlt mt of Some (a, ca) \<Rightarrow> interp ca 1 | None \<Rightarrow> ''image'')
            @ ''\" />''
      | None \<Rightarrow> mt)"

subsection \<open>Decorative elements, panels of the editor, wrappers\<close>

text \<open>\<^verbatim>\<open>/<svg[^>]*>[\s\S]*?<\/svg>/gi\<close>\<close>

definition reSvg :: re where
  "reSvg = cat [Lit ''<svg'', Star Greedy notGt, Lit ''>'', Star Lazy anyChar, Lit ''</svg>'']"

text \<open>\<^verbatim>\<open>/<span[^>]*class="[^"]*heading-anchor-wrapper[^"]*"[^>]*>[\s\S]*?<\/span>/gi\<close>\<close>

definition reAnchorWrapper :: re where
  "reAnchorWrapper = cat [Lit ''<span'', Star Greedy notGt, Lit ''class=\"'', Star Greedy notQuote,
     Lit ''heading-anchor-wrapper'', Star Greedy notQuote, Lit ''\"'', Star Greedy notGt, Lit ''>'',
     Star Lazy anyChar, Lit ''</span>'']"

text \<open>\<^verbatim>\<open>/<button[^>]*data-testid="anchor-button"[^>]*>[\s\S]*?<\/button>/gi\<close>\<close>

definition reAnchorButton :: re where
  "reAnchorButton = cat [Lit ''<button'', Star Greedy notGt, Lit ''data-testid=\"anchor-button\"'',
     Star Greedy notGt, Lit ''>'', Star Lazy anyChar, Lit ''</button>'']"

text \<open>\<^verbatim>\<open>/<span[^>]*data-testid="visually-hidden[^"]*"[^>]*>[\s\S]*?<\/span>/gi\<close>\<close>

definition reVisuallyHidden :: re where
  "reVisuallyHidden = cat [Lit ''<span'', Star Greedy notGt, Lit ''data-testid=\"visually-hidden'',
     Star Greedy notQuote, Lit ''\"'', Star Greedy notGt, Lit ''>'', Star Lazy anyChar, Lit ''</span>'']"

text \<open>\<^verbatim>\<open>/<div[^>]*class="[^"]*ak-editor-panel[^"]*"[^>]*data-panel-type="([^"]*)"[^>]*>[\s\S]*?<div[^>]*class="[^"]*ak-editor-panel__content[^"]*"[^>]*>([\s\S]*?)<\/div>\s*<\/div>/gi\<close>\<close>

definition reEditorPanel :: re where
  "reEditorPanel = cat [Lit ''<div'', Star Greedy notGt, Lit ''class=\"'', Star Greedy notQuote,
     Lit ''ak-editor-panel'', Star Greedy notQuote, Lit ''\"'', Star Greedy notGt,
     Lit ''data-panel-type=\"'', Grp 1 (Star Greedy notQuote), Lit ''\"'', Star Greedy notGt, Lit ''>'',
     Star Lazy anyChar,
     Lit ''<div'', Star Greedy notGt, Lit ''class=\"'', Star Greedy notQuote,
     Lit ''ak-editor-panel__content'', Star Greedy notQuote, Lit ''\"'', Star Greedy notGt, Lit ''>'',
     Grp 2 (Star Lazy anyChar), Lit ''</div>'', Star Greedy space, Lit ''</div>'']"

definition editorPanel :: "string \<Rightarrow> caps \<Rightarrow> string" where
  "editorPanel mt c =
     ''<blockquote>''
       @ (if interp c 1 \<noteq> [] then ''**'' @ toUpperCase (interp c 1) @ '':** '' else [])
       @ interp c 2 @ ''</blockquote>''"

text \<open>\<^verbatim>\<open>/<div[^>]*class="[^"]*ak-editor-panel__icon[^"]*"[^>]*>[\s\S]*?<\/div>/gi\<close>\<close>

definition rePanelIcon :: re where
  "rePanelIcon = cat [Lit ''<div'', Star Greedy notGt, Lit ''class=\"'', Star Greedy notQuote,
     Lit ''ak-editor-panel__icon'', Star Greedy notQuote, Lit ''\"'', Star Greedy notGt, Lit ''>'',
     Star Lazy anyChar, Lit ''</div>'']"

text \<open>\<^verbatim>\<open>/<span[^>]*data-loadable-vc-wrapper[^>]*>([\s\S]*?)<\/span>/gi\<close>\<close>

definition reLoadable :: re where
  "reLoadable = cat [Lit ''<span'', Star Greedy notGt, Lit ''data-loadable-vc-wrapper'',
     Star Greedy notGt, Lit ''>'', Grp 1 (Star Lazy anyChar), Lit ''</span>'']"

subsection \<open>Image macros\<close>

text \<open>\<^verbatim>\<open>/<ac:image[^>]*>([\s\S]*?)<\/ac:image>/gi\<close>, and inside the callback
  \<^verbatim>\<open>/ri:filename="([^"]+)"/\<close> and \<^verbatim>\<open>/ri:value="([^"]+)"/\<close>.\<close>

definition reAcImage :: re where
  "reAcImage = cat [Lit ''<ac:image'', Star Greedy notGt, Lit ''>'', Grp 1 (Star Lazy anyChar),
     Lit ''</ac:image>'']"

definition reRiFilename :: re where
  "reRiFilename = cat [Lit ''ri:filename=\"'', Grp 1 (Plus Greedy notQuote), Lit ''\"'']"

definition reRiValue :: re where
  "reRiValue = cat [Lit ''ri:value=\"'', Grp 1 (Plus Greedy notQuote), Lit ''\"'']"

definition acImage :: "string \<Rightarrow> string \<Rightarrow> caps \<Rightarrow> string" where
  "acImage pageSlug mt c =
     (case matchFirst False reRiFilename (interp c 1) of
        Some (a, cf) \<Rightarrow>
          ''<img src=\"./attachments/'' @ pageSlug @ ''/'' @ sanitizeFilename (interp cf 1)
            @ ''\" alt=\"'' @ sanitizeFilename (interp cf 1) @ ''\" />''
      | None \<Rightarrow>
          (case matchFirst False reRiValue (interp c 1) of
             Some (a, cu) \<Rightarrow> ''<img src=\"'' @ interp cu 1 @ ''\" alt=\"external-image\" />''
           | None \<Rightarrow> mt))"

subsection \<open>Panel macros\<close>

text \<open>\<^verbatim>\<open>/<ac:structured-macro[^>]*ac:name="(info|note|warning|tip)"[^>]*>[\s\S]*?<ac:rich-text-body>([\s\S]*?)<\/ac:rich-text-body>[\s\S]*?<\/ac:structured-macro>/gi\<close>\<close>

definition rePanelMacro :: re where
  "rePanelMacro = cat [Lit ''<ac:structured-macro'', Star Greedy notGt, Lit ''ac:name=\"'',
     Grp 1 (alts [Lit ''info'', Lit ''note'', Lit ''warning'', Lit ''tip'']), Lit ''\"'',
     Star Greedy notGt, Lit ''>'', Star Lazy anyChar, Lit ''<ac:rich-text-body>'',
     Grp 2 (Star Lazy anyChar), Lit ''</ac:rich-text-body>'', Star Lazy anyChar,
     Lit ''</ac:structured-macro>'']"

definition panelMacro :: "string \<Rightarrow> caps \<Rightarrow> string" where
  "panelMacro mt c =
     ''<blockquote>'' @ ''**'' @ toUpperCase (interp c 1) @ '':** '' @ interp c 2 @ ''</blockquote>''"

subsection \<open>Code macros\<close>

text \<open>
  \<^verbatim>\<open>let code = codeContent.replace(/\t/g, '\n');
  const escapedCode = code.replace(/&/g, '&amp;').replace(/</g, '&lt;').replace(/>/g, '&gt;');
  return `<pre><code class="language-${language}">${escapedCode}</code></pre>`;\<close>
\<close>

definition convertCodeBlock :: "string \<Rightarrow> string \<Rightarrow> string" where
  "convertCodeBlock codeContent language =
     ''<pre><code class=\"language-'' @ language @ ''\">''
       @ replaceG False (Lit ''>'') (template (Lit ''>'') ''&gt;'')
           (replaceG False (Lit ''<'') (template (Lit ''<'') ''&lt;'')
             (replaceG False (Lit ''&'') (template (Lit ''&'') ''&amp;'')
               (replaceG False (Lit [CHR 0x09]) (template (Lit [CHR 0x09]) [CHR 0x0A]) codeContent)))
       @ ''</code></pre>''"

text \<open>\<^verbatim>\<open>/<ac:structured-macro[^>]*ac:name="code"[^>]*>[\s\S]*?<ac:parameter[^>]*ac:name="language"[^>]*>([^<]*)<\/ac:parameter>[\s\S]*?<ac:plain-text-body><!\[CDATA\[([\s\S]*?)\]\]><\/ac:plain-text-body>[\s\S]*?<\/ac:structured-macro>/gi\<close>\<close>

definition reCodeLang :: re where
  "reCodeLang = cat [Lit ''<ac:structured-macro'', Star Greedy notGt, Lit ''ac:name=\"code\"'',
     Star Greedy notGt, Lit ''>'', Star Lazy anyChar,
     Lit ''<ac:parameter'', Star Greedy notGt, Lit ''ac:name=\"language\"'', Star Greedy notGt, Lit ''>'',
     Grp 1 (Star Greedy (Cls True [Ch CHR ''<''])), Lit ''</ac:parameter>'', Star Lazy anyChar,
     Lit ''<ac:plain-text-body><![CDATA['', Grp 2 (Star Lazy anyChar), Lit '']]></ac:plain-text-body>'',
     Star Lazy anyChar, Lit ''</ac:structured-macro>'']"

text \<open>\<^verbatim>\<open>/<ac:structured-macro[^>]*ac:name="code"[^>]*>[\s\S]*?<ac:plain-text-body><!\[CDATA\[([\s\S]*?)\]\]><\/ac:plain-text-body>[\s\S]*?<\/ac:structured-macro>/gi\<close>\<close>

definition reCodeNoLang :: re where
  "reCodeNoLang = cat [Lit ''<ac:structured-macro'', Star Greedy notGt, Lit ''ac:name=\"code\"'',
     Star Greedy notGt, Lit ''>'', Star Lazy anyChar,
     Lit ''<ac:plain-text-body><![CDATA['', Grp 1 (Star Lazy anyChar), Lit '']]></ac:plain-text-body>'',
     Star Lazy anyChar, Lit ''</ac:structured-macro>'']"

subsection \<open>Other macros\<close>

text \<open>\<^verbatim>\<open>/<ac:structured-macro[^>]*\/>/gi\<close>\<close>

definition reMacroSelfClosing :: re where
  "reMacroSelfClosing = cat [Lit ''<ac:structured-macro'', Star Greedy notGt, Lit ''/>'']"

text \<open>\<^verbatim>\<open>/<ac:structured-macro[^>]*>[\s\S]*?<\/ac:structured-macro>/gi\<close>, and inside the
  callback \<^verbatim>\<open>/<img[^>]*>/gi\<close>.\<close>

definition reMacro :: re where
  "reMacro = cat [Lit ''<ac:structured-macro'', Star Greedy notGt, Lit ''>'', Star Lazy anyChar,
     Lit ''</ac:structured-macro>'']"

definition reImgTag :: re where
  "reImgTag = cat [Lit ''<img'', Star Greedy notGt, Lit ''>'']"

definition otherMacro :: "string \<Rightarrow> caps \<Rightarrow> string" where
  "otherMacro mt c =
     (case matchG True reImgTag mt of
        Some imgTags \<Rightarrow> join [CHR 0x0A] imgTags
      | None \<Rightarrow> [])"

text \<open>\<^verbatim>\<open>/<ac:parameter[^>]*>[\s\S]*?<\/ac:parameter>/gi\<close>\<close>

definition reParameter :: re where
  "reParameter = cat [Lit ''<ac:parameter'', Star Greedy notGt, Lit ''>'', Star Lazy anyChar,
     Lit ''</ac:parameter>'']"

subsection \<open>Tables\<close>

text \<open>\<^verbatim>\<open>/<colgroup>[\s\S]*?<\/colgroup>/gi\<close>\<close>

definition reColgroup :: re where
  "reColgroup = cat [Lit ''<colgroup>'', Star Lazy anyChar, Lit ''</colgroup>'']"

text \<open>\<^verbatim>\<open>/<table[^>]*>/gi\<close>\<close>

definition reTableTag :: re where
  "reTableTag = cat [Lit ''<table'', Star Greedy notGt, Lit ''>'']"

text \<open>The cell tags \<^verbatim>\<open><t[hd][^>]*>\<close> and \<^verbatim>\<open><\/t[hd]>\<close>, the paragraph tag
  \<^verbatim>\<open><p(?:\s[^>]*)?>\<close>.\<close>

definition cellOpen :: re where
  "cellOpen = cat [Lit ''<t'', Cls False [Ch CHR ''h'', Ch CHR ''d''], Star Greedy notGt, Lit ''>'']"

definition cellClose :: re where
  "cellClose = cat [Lit ''</t'', Cls False [Ch CHR ''h'', Ch CHR ''d''], Lit ''>'']"

definition pOpen :: re where
  "pOpen = cat [Lit ''<p'', Opt (Seq space (Star Greedy notGt)), Lit ''>'']"

text \<open>\<^verbatim>\<open>/(<t[hd][^>]*>)\s*<p(?:\s[^>]*)?>([\s\S]*?)<\/p>\s*(<\/t[hd]>)/gi\<close>\<close>

definition reCellP :: re where
  "reCellP = cat [Grp 1 cellOpen, Star Greedy space, pOpen, Grp 2 (Star Lazy anyChar), Lit ''</p>'',
     Star Greedy space, Grp 3 cellClose]"

text \<open>\<^verbatim>\<open>/<\/p>\s*<p(?:\s[^>]*)?>/gi\<close>\<close>

definition rePP :: re where
  "rePP = cat [Lit ''</p>'', Star Greedy space, pOpen]"

text \<open>\<^verbatim>\<open>/(<t[hd][^>]*>)\s*<p(?:\s[^>]*)?>/gi\<close>\<close>

definition reCellPOpen :: re where
  "reCellPOpen = cat [Grp 1 cellOpen, Star Greedy space, pOpen]"

text \<open>\<^verbatim>\<open>/<\/p>\s*(<\/t[hd]>)/gi\<close>\<close>

definition reCellPClose :: re where
  "reCellPClose = cat [Lit ''</p>'', Star Greedy space, Grp 1 cellClose]"

text \<open>\<^verbatim>\<open>/<(th|td)\s+[^>]*>/gi\<close>\<close>

definition reCellAttrs :: re where
  "reCellAttrs = cat [Lit ''<'', Grp 1 (Alt (Lit ''th'') (Lit ''td'')), Plus Greedy space,
     Star Greedy notGt, Lit ''>'']"

text \<open>\<^verbatim>\<open>/<table>\s*<tbody>\s*(<tr>(?:\s*<th>[\s\S]*?<\/th>\s*)+<\/tr>)/gi\<close>\<close>

definition reHeaderRow :: re where
  "reHeaderRow = cat [Lit ''<table>'', Star Greedy space, Lit ''<tbody>'', Star Greedy space,
     Grp 1 (cat [Lit ''<tr>'',
       Plus Greedy (cat [Star Greedy space, Lit ''<th>'', Star Lazy anyChar, Lit ''</th>'',
                         Star Greedy space]),
       Lit ''</tr>''])]"

subsection \<open>Links\<close>

text \<open>\<^verbatim>\<open>pageTitle.toLowerCase().replace(/[^a-z0-9]+/g, '-').replace(/^-|-$/g, '')\<close>, the
  text of \<open>slugify\<close>, is written out in each of the three callbacks.\<close>

definition linkAnchor :: "string \<Rightarrow> string \<Rightarrow> string" where
  "linkAnchor pageTitle linkText =
     ''<a href=\"CONFLUENCE_LINK:''
       @ replaceG False reEdgeDash (template reEdgeDash [])
           (replaceG False reNonAlnum (template reNonAlnum ''-'') (toLowerCase pageTitle))
       @ ''\">'' @ linkText @ ''</a>''"

text \<open>The page reference \<^verbatim>\<open><ri:page\s+ri:content-title="([^"]+)"[^>]*\/>\<close>.\<close>

definition riPage :: re where
  "riPage = cat [Lit ''<ri:page'', Plus Greedy space, Lit ''ri:content-title=\"'',
     Grp 1 (Plus Greedy notQuote), Lit ''\"'', Star Greedy notGt, Lit ''/>'']"

text \<open>\<^verbatim>\<open>/<ac:link[^>]*>[\s\S]*?<ri:page\s+ri:content-title="([^"]+)"[^>]*\/>[\s\S]*?<ac:link-body>([^<]*)<\/ac:link-body>[\s\S]*?<\/ac:link>/gi\<close>\<close>

definition reLinkBody :: re where
  "reLinkBody = cat [Lit ''<ac:link'', Star Greedy notGt, Lit ''>'', Star Lazy anyChar, riPage,
     Star Lazy anyChar, Lit ''<ac:link-body>'', Grp 2 (Star Greedy (Cls True [Ch CHR ''<''])),
     Lit ''</ac:link-body>'', Star Lazy anyChar, Lit ''</ac:link>'']"

text \<open>\<^verbatim>\<open>/<ac:link[^>]*>[\s\S]*?<ri:page\s+ri:content-title="([^"]+)"[^>]*\/>[\s\S]*?<ac:plain-text-link-body><!\[CDATA\[([^\]]+)\]\]><\/ac:plain-text-link-body>[\s\S]*?<\/ac:link>/gi\<close>\<close>

definition reLinkPlain :: re where
  "reLinkPlain = cat [Lit ''<ac:link'', Star Greedy notGt, Lit ''>'', Star Lazy anyChar, riPage,
     Star Lazy anyChar, Lit ''<ac:plain-text-link-body><![CDATA['',
     Grp 2 (Plus Greedy (Cls True [Ch CHR '']''])), Lit '']]></ac:plain-text-link-body>'',
     Star Lazy anyChar, Lit ''</ac:link>'']"

text \<open>\<^verbatim>\<open>/<ac:link[^>]*>[\s\S]*?<ri:page\s+ri:content-title="([^"]+)"[^>]*\/>[\s\S]*?<\/ac:link>/gi\<close>\<close>

definition reLinkBare :: re where
  "reLinkBare = cat [Lit ''<ac:link'', Star Greedy notGt, Lit ''>'', Star Lazy anyChar, riPage,
     Star Lazy anyChar, Lit ''</ac:link>'']"

text \<open>\<^verbatim>\<open>${linkText || pageTitle}\<close>\<close>

definition linkWithBody :: "string \<Rightarrow> caps \<Rightarrow> string" where
  "linkWithBody mt c =
     linkAnchor (interp c 1) (if c 2 = None \<or> c 2 = Some [] then interp c 1 else interp c 2)"

definition linkBare :: "string \<Rightarrow> caps \<Rightarrow> string" where
  "linkBare mt c = linkAnchor (interp c 1) (interp c 1)"

subsection \<open>The rules in their order\<close>

definition preprocessConfluenceHtml ::
  "(string \<Rightarrow> string option) \<Rightarrow> string \<Rightarrow> string \<Rightarrow> attachment list \<Rightarrow> string" where
  "preprocessConfluenceHtml protoText html pageSlug attachments =
     (let fileIdMap = buildFileIdMap attachments Map.empty;
          html = replaceG True reBlobImg (callback (blobImage protoText fileIdMap)) html;
          html = replaceG True reSvg (template reSvg []) html;
          html = replaceG True reAnchorWrapper (template reAnchorWrapper []) html;
          html = replaceG True reAnchorButton (template reAnchorButton []) html;
          html = replaceG True reVisuallyHidden (template reVisuallyHidden []) html;
          html = replaceG True reEditorPanel (callback editorPanel) html;
          html = replaceG True rePanelIcon (template rePanelIcon []) html;
          html = replaceG True reLoadable (template reLoadable ''$1'') html;
          html = replaceG True reAcImage (callback (acImage pageSlug)) html;
          html = replaceG True rePanelMacro (callback panelMacro) html;
          html = replaceG True reCodeLang (callback (\<lambda>mt c. convertCodeBlock (interp c 2) (interp c 1))) html;
          html = replaceG True reCodeNoLang (callback (\<lambda>mt c. convertCodeBlock (interp c 1) [])) html;
          html = replaceG True reMacroSelfClosing (template reMacroSelfClosing []) html;
          html = replaceG True reMacro (callback otherMacro) html;
          html = replaceG True reParameter (template reParameter []) html;
          html = replaceG True reColgroup (template reColgroup []) html;
          html = replaceG True reTableTag (template reTableTag ''<table>'') html;
          html = replaceG True reCellP (template reCellP ''$1$2$3'') html;
          html = replaceG True rePP (template rePP ''<br/>'') html;
          html = replaceG True reCellPOpen (template reCellPOpen ''$1'') html;
          html = replaceG True reCellPClose (template reCellPClose ''$1'') html;
          html = replaceG True reCellAttrs (template reCellAttrs ''<$1>'') html;
          html = replaceG True reHeaderRow (template reHeaderRow ''<table><thead>$1</thead><tbody>'') html;
          html = replaceG True reLinkBody (callback linkWithBody) html;
          html = replaceG True reLinkPlain (callback linkWithBody) html;
          html = replaceG True reLinkBare (callback linkBare) html
      in html)"


section \<open>The text-protection pass of \<open>convertToMarkdown\<close>\<close>

text \<open>\<^verbatim>\<open>/<([A-Z][a-zA-Z]*(?:Reference|Type|Entity|Value|Field|Collection|Model|Rule|Filter|Event|Command|Parameter|Binding|Element|Container|Unit|IU|AIU|CUI)?)>/g\<close>\<close>

definition reVueTag :: re where
  "reVueTag = cat [Lit ''<'',
     Grp 1 (cat [Cls False [Rng CHR ''A'' CHR ''Z''],
                 Star Greedy (Cls False [Rng CHR ''a'' CHR ''z'', Rng CHR ''A'' CHR ''Z'']),
                 Opt (alts [Lit ''Reference'', Lit ''Type'', Lit ''Entity'', Lit ''Value'', Lit ''Field'',
                   Lit ''Collection'', Lit ''Model'', Lit ''Rule'', Lit ''Filter'', Lit ''Event'',
                   Lit ''Command'', Lit ''Parameter'', Lit ''Binding'', Lit ''Element'',
                   Lit ''Container'', Lit ''Unit'', Lit ''IU'', Lit ''AIU'', Lit ''CUI''])]),
     Lit ''>'']"

text \<open>\<^verbatim>\<open>/```[\s\S]*?```/g\<close> and \<^verbatim>\<open>/<table[\s\S]*?<\/table>/gi\<close>\<close>

definition reCodeFence :: re where
  "reCodeFence = cat [Lit ''```'', Star Lazy anyChar, Lit ''```'']"

definition reTable :: re where
  "reTable = cat [Lit ''<table'', Star Lazy anyChar, Lit ''</table>'']"

text \<open>A number in a template literal: its decimal digits.\<close>

fun showNat :: "nat \<Rightarrow> string" where
  "showNat n = (if n < 10 then [char_of (48 + n)] else showNat (n div 10) @ [char_of (48 + n mod 10)])"

definition codeBlockToken :: "nat \<Rightarrow> string" where
  "codeBlockToken i = ''__CODE_BLOCK_'' @ showNat i @ ''__''"

definition tableToken :: "nat \<Rightarrow> string" where
  "tableToken i = ''__TABLE_'' @ showNat i @ ''__''"

text \<open>\<^verbatim>\<open>(match) => { placeholders.push(match); return token(placeholders.length - 1); }\<close>\<close>

definition pushPlaceholder :: "(nat \<Rightarrow> string) \<Rightarrow> string list \<Rightarrow> string \<Rightarrow> string \<times> string list" where
  "pushPlaceholder token placeholders mt = (token (length placeholders), placeholders @ [mt])"

text \<open>\<open>htmlTagNames\<close>, and the two patterns built from it:
  \<^verbatim>\<open>(<(?:names)(?:\s[^>]*)?>)(?!`)\<close> and \<^verbatim>\<open>(<\/(?:names)>)(?!`)\<close>, both with the flags
  \<open>gi\<close>.\<close>

definition htmlTagNames :: re where
  "htmlTagNames = alts [Lit ''div'', Lit ''span'', Lit ''form'', Lit ''input'', Lit ''button'',
     Lit ''select'', Lit ''textarea'', Lit ''label'', Lit ''ul'', Lit ''ol'', Lit ''li'', Lit ''p'',
     Lit ''br'', Lit ''img'', Lit ''dl'', Lit ''dt'', Lit ''dd'', Lit ''a'', Lit ''hr'', Lit ''header'',
     Lit ''footer'', Lit ''section'', Lit ''aside'', Lit ''nav'', Lit ''article'', Lit ''main'',
     Lit ''figure'', Lit ''figcaption'', Seq (Lit ''h'') (Cls False [Rng CHR ''1'' CHR ''6''])]"

definition reOpeningTag :: re where
  "reOpeningTag = cat [Grp 1 (cat [Lit ''<'', htmlTagNames, Opt (Seq space (Star Greedy notGt)), Lit ''>'']),
     NLook (Lit ''`'')]"

definition reClosingTag :: re where
  "reClosingTag = cat [Grp 1 (cat [Lit ''</'', htmlTagNames, Lit ''>'']), NLook (Lit ''`'')]"

definition escapeOpeningTags :: "string \<Rightarrow> string" where
  "escapeOpeningTags markdown = replaceG True reOpeningTag (template reOpeningTag ''`$1`'') markdown"

definition escapeClosingTags :: "string \<Rightarrow> string" where
  "escapeClosingTags markdown = replaceG True reClosingTag (template reClosingTag ''`$1`'') markdown"

text \<open>
  \<^verbatim>\<open>for (let i = 0; i < 3; i++) { const before = markdown; markdown = escapeOpeningTags();
  markdown = escapeClosingTags(); if (markdown === before) break; }\<close>
\<close>

fun escapeLoop :: "nat \<Rightarrow> string \<Rightarrow> string" where
  "escapeLoop 0 markdown = markdown"
| "escapeLoop (Suc n) markdown =
     (let after = escapeClosingTags (escapeOpeningTags markdown)
      in if after = markdown then after else escapeLoop n after)"

text \<open>\<open>str.replace(pattern, replacement)\<close> with two strings: the first occurrence of the
  pattern is replaced, and the replacement is read as a template.\<close>

fun replaceStr :: "string \<Rightarrow> string \<Rightarrow> string \<Rightarrow> string \<Rightarrow> string" where
  "replaceStr pat rep rpre [] =
     (if pat = [] then getSubstitution 0 [] Map.empty (rev rpre) [] rep else [])"
| "replaceStr pat rep rpre (x # xs) =
     (case litMatch False pat (x # xs) of
        Some post \<Rightarrow> getSubstitution 0 pat Map.empty (rev rpre) post rep @ post
      | None \<Rightarrow> x # replaceStr pat rep (x # rpre) xs)"

text \<open>\<^verbatim>\<open>placeholders.forEach((block, i) => { markdown = markdown.replace(token(i), block); })\<close>\<close>

fun restore :: "(nat \<Rightarrow> string) \<Rightarrow> nat \<Rightarrow> string list \<Rightarrow> string \<Rightarrow> string" where
  "restore token i [] markdown = markdown"
| "restore token i (block # blocks) markdown =
     restore token (Suc i) blocks (replaceStr (token i) block [] markdown)"

definition textProtection :: "string \<Rightarrow> string" where
  "textProtection markdown =
     (let markdown = replaceG False reVueTag (template reVueTag ''`<$1>`'') markdown;
          (markdown, codeBlockPlaceholders) =
             gsubS False reCodeFence (pushPlaceholder codeBlockToken) [] [] markdown;
          (markdown, tablePlaceholders) =
             gsubS True reTable (pushPlaceholder tableToken) [] [] markdown;
          markdown = escapeLoop 3 markdown;
          markdown = restore tableToken 0 tablePlaceholders markdown;
          markdown = restore codeBlockToken 0 codeBlockPlaceholders markdown
      in markdown)"

section \<open>The link resolver\<close>

text \<open>The entries of \<open>pageMap\<close> that the resolver reads.\<close>

record pageInfo =
  title :: string
  pagePath :: string


text \<open>\<open>str.split('/')\<close>, \<open>.filter(Boolean)\<close> and \<open>'../'.repeat(n)\<close>.\<close>

fun split :: "char \<Rightarrow> string \<Rightarrow> string \<Rightarrow> string list" where
  "split sep acc [] = [acc]"
| "split sep acc (x # xs) = (if x = sep then acc # split sep [] xs else split sep (acc @ [x]) xs)"







section \<open>Notions used to state the properties\<close>

text \<open>The class \<open>[a-z0-9]\<close>.\<close>

definition isAlnum :: "char \<Rightarrow> bool" where
  "isAlnum c = (inRange CHR ''a'' CHR ''z'' c \<or> inRange CHR ''0'' CHR ''9'' c)"

text \<open>Every maximal run of characters that satisfy \<open>P\<close> becomes one \<open>d\<close>.\<close>

function collapseBy :: "(char \<Rightarrow> bool) \<Rightarrow> char \<Rightarrow> string \<Rightarrow> string" where
  "collapseBy P d [] = []"
| "collapseBy P d (x # xs) = (if P x then d # collapseBy P d (dropWhile P xs) else x # collapseBy P d xs)"
  by pat_completeness auto
termination
  by (relation "measure (\<lambda>(P, d, s). length s)") (auto simp: length_dropWhile_le less_Suc_eq_le)

text \<open>A dash at the end, and a dash at either end, taken away.\<close>

fun trimEnd :: "string \<Rightarrow> string" where
  "trimEnd [] = []"
| "trimEnd [x] = (if x = CHR ''-'' then [] else [x])"
| "trimEnd (x # y # t) = x # trimEnd (y # t)"

definition trimDash :: "string \<Rightarrow> string" where
  "trimDash s = (case s of [] \<Rightarrow> [] | x # t \<Rightarrow> if x = CHR ''-'' then trimEnd t else trimEnd s)"

text \<open>Characters of \<open>[a-z0-9]\<close> and dashes, where a dash is followed by a character of
  \<open>[a-z0-9]\<close> or by nothing (\<open>okC\<close>); the same with a first and a last character of
  \<open>[a-z0-9]\<close> (\<open>okS\<close>).\<close>

fun okC :: "string \<Rightarrow> bool" where
  "okC [] = True"
| "okC (x # t) = (if x = CHR ''-'' then (case t of [] \<Rightarrow> True | y # _ \<Rightarrow> isAlnum y) \<and> okC t
                  else isAlnum x \<and> okC t)"

fun okS :: "string \<Rightarrow> bool" where
  "okS [] = False"
| "okS [x] = isAlnum x"
| "okS (x # y # t) = (isAlnum x \<and> (if y = CHR ''-'' then okS t else okS (y # t)))"

definition okT :: "string \<Rightarrow> bool" where
  "okT t = (t = [] \<or> (\<exists>t'. t = CHR ''-'' # t' \<and> okS t'))"

text \<open>The pattern \<^verbatim>\<open>^[a-z0-9]+(-[a-z0-9]+)*$\<close> of the specification.\<close>

definition reAZ09 :: re where
  "reAZ09 = Cls False [Rng CHR ''a'' CHR ''z'', Rng CHR ''0'' CHR ''9'']"

definition reSlug :: re where
  "reSlug = cat [Bol, Plus Greedy reAZ09, Star Greedy (Grp 1 (Seq (Lit ''-'') (Plus Greedy reAZ09))), Eol]"

text \<open>The characters that \<open>sanitizeFilename\<close> replaces: \<^verbatim>\<open>< > : " / \ | ? *\<close>.\<close>

definition invalidChars :: string where
  "invalidChars = [CHR ''<'', CHR ''>'', CHR '':'', CHR 0x22, CHR ''/'', CHR 0x5C, CHR ''|'', CHR ''?'', CHR ''*'']"

text \<open>An \<open>Object.prototype\<close> without properties, for the examples.\<close>

definition noProto :: "string \<Rightarrow> string option" where
  "noProto name = None"










section \<open>Lemmas on characters and on the matcher\<close>

declare gsub.simps [simp del] gsubS.simps [simp del] allMatches.simps [simp del]
declare m.simps(6,7) [simp del]

lemmas m_star_greedy = m.simps(6)


lemma lowerChar_code [code]:
  "lowerChar (Char b0 b1 b2 b3 b4 b5 b6 b7) =
     (if \<not> b5 \<and> b6 \<and> \<not> b7 \<and> (b0 \<or> b1 \<or> b2 \<or> b3 \<or> b4) \<and> \<not> (b4 \<and> b3 \<and> (b2 \<or> (b1 \<and> b0)))
      then Char b0 b1 b2 b3 b4 True b6 b7 else Char b0 b1 b2 b3 b4 b5 b6 b7)"
  by (cases b0; cases b1; cases b2; cases b3; cases b4; cases b5; cases b6; cases b7;
      simp add: lowerChar_def lowers_def uppers_def)

lemma in_uppers_code: "c \<in> set uppers \<Longrightarrow> 65 \<le> code c \<and> code c \<le> 90"
  by (auto simp: uppers_def code_def)

lemma in_lowers_code: "c \<in> set lowers \<Longrightarrow> 97 \<le> code c \<and> code c \<le> 122"
  by (auto simp: lowers_def code_def)

lemma length_lowers_uppers: "length lowers = length uppers"
  by (simp add: lowers_def uppers_def)

lemma lowerChar_id: "c \<notin> set uppers \<Longrightarrow> lowerChar c = c"
proof -
  assume "c \<notin> set uppers"
  then have "map_of (zip uppers lowers) c = None"
    by (auto simp: map_of_eq_None_iff dest: set_zip_leftD)
  then show ?thesis by (simp add: lowerChar_def)
qed

lemma upperChar_id: "c \<notin> set lowers \<Longrightarrow> upperChar c = c"
proof -
  assume "c \<notin> set lowers"
  then have "map_of (zip lowers uppers) c = None"
    by (auto simp: map_of_eq_None_iff dest: set_zip_leftD)
  then show ?thesis by (simp add: upperChar_def)
qed

lemma lowerChar_alnum: "isAlnum c \<Longrightarrow> lowerChar c = c"
  by (rule lowerChar_id) (auto simp: isAlnum_def inRange_def code_def dest!: in_uppers_code)

lemma dash_not_alnum [simp]: "\<not> isAlnum CHR ''-''"
  by (simp add: isAlnum_def inRange_def code_def)

lemma cls_nonalnum: "clsMatch False True [Rng CHR ''a'' CHR ''z'', Rng CHR ''0'' CHR ''9''] = (\<lambda>c. \<not> isAlnum c)"
  by (rule ext) (auto simp: clsMatch_def isAlnum_def)

lemma cls_alnum: "clsMatch False False [Rng CHR ''a'' CHR ''z'', Rng CHR ''0'' CHR ''9''] = isAlnum"
  by (rule ext) (auto simp: clsMatch_def isAlnum_def)

lemma star_greedy_cls_Some:
  "m ic (Star Greedy (Cls n it)) (b, s, c) Some
     = Some (b \<and> (case s of [] \<Rightarrow> True | x # _ \<Rightarrow> \<not> clsMatch ic n it x), dropWhile (clsMatch ic n it) s, c)"
proof (induction s arbitrary: b)
  case Nil show ?case by (simp add: m_star_greedy)
next
  case (Cons x xs)
  show ?case using Cons.IH[of False] by (simp add: m_star_greedy)
qed

lemma template_const1: "template r [x] = (\<lambda>mt c pre post. [x])"
  by (simp add: template_def)

lemma template_empty: "template r [] = (\<lambda>mt c pre post. [])"
  by (simp add: template_def)

lemma gsub_plus_cls:
  "gsub ic (Plus Greedy (Cls n it)) (\<lambda>mt c pre post. [d]) pre s = collapseBy (clsMatch ic n it) d s"
proof (induction "clsMatch ic n it" d s arbitrary: pre rule: collapseBy.induct)
  case (1 d)
  show ?case by (subst gsub.simps) simp
next
  case (2 d x xs)
  show ?case
  proof (cases "clsMatch ic n it x")
    case True
    then show ?thesis using 2(1)[OF True]
      by (subst gsub.simps) (simp add: star_greedy_cls_Some length_dropWhile_le less_Suc_eq_le)
  next
    case False
    then show ?thesis using 2(2)[OF False]
      by (subst gsub.simps) simp
  qed
qed

lemma gsub_cls:
  "gsub ic (Cls n it) (\<lambda>mt c pre post. [d]) pre s = map (\<lambda>c. if clsMatch ic n it c then d else c) s"
proof (induction s arbitrary: pre)
  case Nil show ?case by (subst gsub.simps) simp
next
  case (Cons x xs)
  show ?case by (subst gsub.simps) (simp add: Cons.IH)
qed

lemma trimEnd_Cons: "x \<noteq> CHR ''-'' \<Longrightarrow> trimEnd (x # t) = x # trimEnd t"
  by (cases t) auto

lemma match_edge:
  "m False reEdgeDash (b, s, c) Some =
     (case s of [] \<Rightarrow> None
      | x # t \<Rightarrow> if x = CHR ''-'' \<and> (b \<or> t = []) then Some (False, t, c) else None)"
  by (auto simp: reEdgeDash_def canon_def split: list.splits)

lemma gsub_edge_Nil: "gsub False reEdgeDash (\<lambda>mt c pre post. []) p [] = []"
  by (subst gsub.simps) (simp add: match_edge)

lemma gsub_edge_inner:
  "pre \<noteq> [] \<Longrightarrow> gsub False reEdgeDash (\<lambda>mt c pre post. []) pre s = trimEnd s"
proof (induction s arbitrary: pre rule: trimEnd.induct)
  case 1
  show ?case by (subst gsub.simps) (simp add: match_edge)
next
  case (2 x)
  show ?case using 2 by (subst gsub.simps) (simp add: match_edge gsub_edge_Nil)
next
  case (3 x y t)
  show ?case using 3(2) 3(1)[of "x # pre"] by (subst gsub.simps) (simp add: match_edge)
qed

lemma gsub_edge:
  "gsub False reEdgeDash (\<lambda>mt c pre post. []) [] s = trimDash s"
  unfolding trimDash_def
  by (subst gsub.simps) (auto simp: match_edge gsub_edge_inner gsub_edge_Nil trimEnd_Cons split: list.splits)

lemma slugify_eq: "slugify x = trimDash (collapseBy (\<lambda>c. \<not> isAlnum c) CHR ''-'' (map lowerChar x))"
  by (simp add: slugify_def replaceG_def template_const1 template_empty gsub_edge reNonAlnum_def gsub_plus_cls cls_nonalnum toLowerCase_def)

lemma collapse_head:
  "collapseBy (\<lambda>c. \<not> isAlnum c) d (dropWhile (\<lambda>c. \<not> isAlnum c) xs) = [] \<or>
   isAlnum (hd (collapseBy (\<lambda>c. \<not> isAlnum c) d (dropWhile (\<lambda>c. \<not> isAlnum c) xs)))"
  by (induction xs) auto

lemma okC_collapse: "okC (collapseBy (\<lambda>c. \<not> isAlnum c) CHR ''-'' s)"
proof (induction "\<lambda>c. \<not> isAlnum c" "CHR ''-''" s rule: collapseBy.induct)
  case 1 show ?case by simp
next
  case (2 x xs)
  show ?case
  proof (cases "isAlnum x")
    case True
    then show ?thesis using 2(2) by auto
  next
    case False
    then show ?thesis using 2(1) collapse_head[of "CHR ''-''" xs]
      by (auto split: list.splits)
  qed
qed

lemma okS_alnum_hd: "okS s \<Longrightarrow> isAlnum (hd s)"
  by (induction s rule: okS.induct) auto

lemma okS_Cons: "okS (x # t) = (isAlnum x \<and> (t = [] \<or> okS t \<or> (\<exists>t'. t = CHR ''-'' # t' \<and> okS t')))"
proof (cases t)
  case Nil then show ?thesis by simp
next
  case (Cons y t')
  then show ?thesis using okS_alnum_hd[of t] by auto
qed

lemma trimEnd_okC_aux:
  "okC s \<Longrightarrow>
     (case s of [] \<Rightarrow> True
      | x # t \<Rightarrow> if x = CHR ''-''
                 then (t = [] \<and> trimEnd s = []) \<or> (trimEnd s = CHR ''-'' # trimEnd t \<and> okS (trimEnd t))
                 else okS (trimEnd s))"
proof (induction s)
  case Nil show ?case by simp
next
  case (Cons x t)
  have ct: "okC t" using Cons.prems by (auto split: if_splits)
  have IH: "case t of [] \<Rightarrow> True
      | y # u \<Rightarrow> if y = CHR ''-''
                 then (u = [] \<and> trimEnd t = []) \<or> (trimEnd t = CHR ''-'' # trimEnd u \<and> okS (trimEnd u))
                 else okS (trimEnd t)"
    by (rule Cons.IH[OF ct])
  show ?case
  proof (cases "x = CHR ''-''")
    case True
    show ?thesis
    proof (cases t)
      case Nil then show ?thesis using True by simp
    next
      case (Cons y u)
      then have "isAlnum y" using Cons.prems True by simp
      then have "y \<noteq> CHR ''-''" by auto
      then show ?thesis using True Cons IH by simp
    qed
  next
    case False
    then have xa: "isAlnum x" using Cons.prems by simp
    have te: "trimEnd (x # t) = x # trimEnd t" using False by (rule trimEnd_Cons)
    show ?thesis
    proof (cases t)
      case Nil then show ?thesis using False xa by simp
    next
      case (Cons y u)
      then show ?thesis using False xa IH te by (auto simp: okS_Cons split: if_splits)
    qed
  qed
qed

lemma trimDash_okC: "okC s \<Longrightarrow> trimDash s = [] \<or> okS (trimDash s)"
proof (cases s)
  case Nil then show ?thesis by (simp add: trimDash_def)
next
  case (Cons x t)
  assume c: "okC s"
  show ?thesis
  proof (cases "x = CHR ''-''")
    case False
    then show ?thesis using trimEnd_okC_aux[OF c] Cons by (simp add: trimDash_def)
  next
    case True
    then have ct: "okC t" using c Cons by simp
    show ?thesis
    proof (cases t)
      case Nil then show ?thesis using True Cons by (simp add: trimDash_def)
    next
      case (Cons y u)
      then have "isAlnum y" using c True \<open>s = x # t\<close> by simp
      then have "y \<noteq> CHR ''-''" by auto
      then show ?thesis using trimEnd_okC_aux[OF ct] Cons True \<open>s = x # t\<close>
        by (simp add: trimDash_def)
    qed
  qed
qed

lemma slugify_shape: "slugify x = [] \<or> okS (slugify x)"
  unfolding slugify_eq by (rule trimDash_okC) (rule okC_collapse)

lemma okS_chars: "okS s \<Longrightarrow> c \<in> set s \<Longrightarrow> isAlnum c \<or> c = CHR ''-''"
  by (induction s rule: okS.induct) (auto split: if_splits)

lemma okS_okC: "okS s \<Longrightarrow> okC s"
proof (induction s rule: okS.induct)
  case 1 then show ?case by simp
next
  case (2 x) then show ?case by auto
next
  case (3 x y t)
  then show ?case using okS_alnum_hd[of t] by (cases t) (auto split: if_splits)
qed

lemma collapse_okC: "okC s \<Longrightarrow> collapseBy (\<lambda>c. \<not> isAlnum c) CHR ''-'' s = s"
proof (induction s)
  case Nil show ?case by simp
next
  case (Cons x t)
  then show ?case by (cases t) (auto split: if_splits)
qed

lemma trimEnd_okS: "okS s \<Longrightarrow> trimEnd s = s"
proof (induction s rule: okS.induct)
  case 1 then show ?case by simp
next
  case (2 x) then show ?case by auto
next
  case (3 x y t)
  then show ?case by (cases t) (auto split: if_splits)
qed

lemma slugify_fix: "okS y \<Longrightarrow> slugify y = y"
proof -
  assume o: "okS y"
  have ld: "lowerChar CHR ''-'' = CHR ''-''"
    by (rule lowerChar_id) (simp add: uppers_def)
  have l: "map lowerChar y = y"
  proof (rule map_idI)
    fix c assume "c \<in> set y"
    then show "lowerChar c = c" using okS_chars[OF o, of c] lowerChar_alnum[of c] ld by auto
  qed
  have "y \<noteq> []" "hd y \<noteq> CHR ''-''" using o okS_alnum_hd[OF o] by auto
  then have t: "trimDash y = y" using trimEnd_okS[OF o] by (cases y) (auto simp: trimDash_def)
  show ?thesis by (simp add: slugify_eq l collapse_okC[OF okS_okC[OF o]] t)
qed

lemma slugify_Nil: "slugify [] = []"
  by (simp add: slugify_eq trimDash_def)

lemma slugify_idem: "slugify (slugify x) = slugify x"
  using slugify_shape[of x] slugify_fix slugify_Nil by auto

lemma collapse_all: "\<forall>c\<in>set s. P c \<Longrightarrow> collapseBy P d s = (if s = [] then [] else [d])"
proof (cases s)
  case Nil then show ?thesis by simp
next
  case (Cons x t)
  assume a: "\<forall>c\<in>set s. P c"
  then have "dropWhile P t = []" using Cons by (simp add: dropWhile_eq_Nil_conv)
  then have "collapseBy P d (dropWhile P t) = []" by (simp only: collapseBy.simps)
  then show ?thesis using a Cons by simp
qed

lemma slugify_punct: "\<forall>c\<in>set x. \<not> isAlnum (lowerChar c) \<Longrightarrow> slugify x = []"
proof -
  assume "\<forall>c\<in>set x. \<not> isAlnum (lowerChar c)"
  then have "\<forall>c\<in>set (map lowerChar x). \<not> isAlnum c" by simp
  from collapse_all[of "map lowerChar x" "\<lambda>c. \<not> isAlnum c", OF this]
  show ?thesis by (simp add: slugify_eq trimDash_def)
qed

lemma starA_run:
  "(\<And>b'. k (b', dropWhile isAlnum t, c) \<noteq> None) \<Longrightarrow> m False (Star Greedy reAZ09) (b, t, c) k \<noteq> None"
proof (induction t arbitrary: b)
  case Nil
  then show ?case by (simp add: m_star_greedy reAZ09_def)
next
  case (Cons x t)
  show ?case
  proof (cases "isAlnum x")
    case True
    have "m False (Star Greedy reAZ09) (False, t, c) k \<noteq> None"
      by (rule Cons.IH) (use Cons.prems True in simp)
    then show ?thesis using True
      by (subst m_star_greedy) (auto simp: reAZ09_def cls_alnum)
  next
    case False
    then show ?thesis using Cons.prems[of b]
      by (subst m_star_greedy) (auto simp: reAZ09_def cls_alnum)
  qed
qed

lemma okS_dropWhile: "okS (x # u) \<Longrightarrow> okT (dropWhile isAlnum u)"
proof (induction u arbitrary: x)
  case Nil then show ?case by (simp add: okT_def)
next
  case (Cons y u)
  show ?case
  proof (cases "y = CHR ''-''")
    case True then show ?thesis using Cons.prems by (simp add: okT_def)
  next
    case False
    then have "okS (y # u)" using Cons.prems by simp
    then show ?thesis using Cons.IH[of y] okS_alnum_hd[of "y # u"] by simp
  qed
qed

lemma tailG:
  "okT t \<Longrightarrow> m False (Star Greedy (Grp 1 (Seq (Lit ''-'') (Plus Greedy reAZ09)))) (b, t, c) (\<lambda>st. m False Eol st Some) \<noteq> None"
proof (induction "length t" arbitrary: t b c rule: less_induct)
  case less
  show ?case
  proof (cases t)
    case Nil
    then show ?thesis by (subst m_star_greedy) simp
  next
    case (Cons d t')
    then have d: "d = CHR ''-''" and o: "okS t'" using less.prems by (auto simp: okT_def)
    then obtain x u where t': "t' = x # u" by (cases t') auto
    have xa: "isAlnum x" using o t' okS_alnum_hd[of t'] by simp
    have oT: "okT (dropWhile isAlnum u)" using o t' by (auto intro: okS_dropWhile)
    have len: "length (dropWhile isAlnum u) < length t"
      using Cons t' length_dropWhile_le[of isAlnum u] by simp
    let ?G = "Grp 1 (Seq (Lit ''-'') (Plus Greedy reAZ09))"
    have "m False (Star Greedy reAZ09) (False, u, c)
            (\<lambda>(b', s', c'). (\<lambda>(b', s', c'). if length s' < length t then m False (Star Greedy ?G) (b', s', c') (\<lambda>st. m False Eol st Some) else None)
                 (b', s', c'(1 \<mapsto> take (length t - length s') t))) \<noteq> None"
      by (rule starA_run) (use len less.hyps[OF len oT] in simp)
    then show ?thesis using Cons d t' xa
      by (subst m_star_greedy) (auto simp: canon_def reAZ09_def cls_alnum)
  qed
qed

lemma okS_matches: "okS y \<Longrightarrow> test False reSlug y"
proof -
  assume o: "okS y"
  then obtain x u where y: "y = x # u" by (cases y) auto
  have xa: "isAlnum x" using o y okS_alnum_hd[of y] by simp
  have oT: "okT (dropWhile isAlnum u)" using o y by (auto intro: okS_dropWhile)
  have "m False (Star Greedy reAZ09) (False, u, Map.empty)
          (\<lambda>st. m False (Star Greedy (Grp 1 (Seq (Lit ''-'') (Plus Greedy reAZ09)))) st (\<lambda>st. m False Eol st Some)) \<noteq> None"
    by (rule starA_run) (use tailG[OF oT] in simp)
  then have "m False reSlug (True, y, Map.empty) Some \<noteq> None"
    using y xa by (auto simp: reSlug_def reAZ09_def cls_alnum)
  then show ?thesis by (auto simp: test_def matchFirst_def y)
qed

section \<open>The sanitizers\<close>

text \<open>
  Claim C9.  For every input string, \<open>slugify\<close> is idempotent; its output is the empty
  string or matches \<^verbatim>\<open>^[a-z0-9]+(-[a-z0-9]+)*$\<close>; and an input without a letter or digit
  (the empty input, or punctuation only) gives the empty string.
\<close>

theorem slugify_spec:
  "slugify (slugify x) = slugify x
   \<and> (slugify x = [] \<or> test False reSlug (slugify x))
   \<and> ((\<forall>c\<in>set x. \<not> isAlnum (lowerChar c)) \<longrightarrow> slugify x = [])"
  using slugify_idem slugify_shape[of x] okS_matches slugify_punct by blast

theorem slugify_spec_witness:
  "list_all (\<lambda>c. \<not> isAlnum (lowerChar c)) ''!@#$%'' \<and> slugify ''!@#$%'' = []
   \<and> slugify (slugify ''!@#$%'') = slugify ''!@#$%''"
proof -
  have h: "\<forall>c\<in>set ''!@#$%''. \<not> isAlnum (lowerChar c)" by code_simp
  then have "list_all (\<lambda>c. \<not> isAlnum (lowerChar c)) ''!@#$%''" by (simp add: list_all_iff)
  then show ?thesis using slugify_spec[of "''!@#$%''"] h by blast
qed

lemma cls_invalid: "clsMatch False False [Ch CHR ''<'', Ch CHR ''>'', Ch CHR '':'', Ch CHR 0x22, Ch CHR ''/'',
     Ch CHR 0x5C, Ch CHR ''|'', Ch CHR ''?'', Ch CHR ''*''] = (\<lambda>c. c \<in> set invalidChars)"
  by (rule ext) (auto simp: clsMatch_def invalidChars_def canon_def)

lemma cls_space: "clsMatch ic False [WS] = isSpace"
  by (rule ext) (simp add: clsMatch_def)

lemma sanitizeFilename_eq:
  "sanitizeFilename x = collapseBy isSpace CHR ''_'' (map (\<lambda>c. if c \<in> set invalidChars then CHR ''_'' else c) x)"
  by (simp add: sanitizeFilename_def replaceG_def template_const1 reSpaces_def reInvalidChar_def
      gsub_plus_cls gsub_cls cls_invalid cls_space)

lemma set_collapseBy: "set (collapseBy P d s) \<subseteq> insert d {c \<in> set s. \<not> P c}"
proof (induction P d s rule: collapseBy.induct)
  case (1 P d) show ?case by simp
next
  case (2 P d x xs)
  show ?case
  proof (cases "P x")
    case True
    have "set (dropWhile P xs) \<subseteq> set xs" by (rule set_dropWhileD[THEN subsetI]) 
    then show ?thesis using 2(1)[OF True] True by auto
  next
    case False
    then show ?thesis using 2(2)[OF False] by auto
  qed
qed

lemma collapseBy_id: "\<forall>c\<in>set s. \<not> P c \<Longrightarrow> collapseBy P d s = s"
  by (induction s) auto

lemma underscore_facts: "\<not> isSpace CHR ''_''" "CHR ''_'' \<notin> set invalidChars"
  by (simp_all add: isSpace_def invalidChars_def)

lemma sanitizeFilename_idem: "sanitizeFilename (sanitizeFilename x) = sanitizeFilename x"
proof -
  let ?f = "\<lambda>c. if c \<in> set invalidChars then CHR ''_'' else c"
  let ?y = "sanitizeFilename x"
  have y: "?y = collapseBy isSpace CHR ''_'' (map ?f x)" by (rule sanitizeFilename_eq)
  have a: "\<forall>c\<in>set ?y. \<not> isSpace c \<and> c \<notin> set invalidChars"
  proof
    fix c assume "c \<in> set ?y"
    then have "c \<in> insert CHR ''_'' {c \<in> set (map ?f x). \<not> isSpace c}"
      using set_collapseBy[of isSpace "CHR ''_''" "map ?f x"] y by auto
    then show "\<not> isSpace c \<and> c \<notin> set invalidChars"
      using underscore_facts by (auto split: if_splits)
  qed
  have m: "map ?f ?y = ?y" by (rule map_idI) (use a in auto)
  have "sanitizeFilename ?y = collapseBy isSpace CHR ''_'' (map ?f ?y)" by (rule sanitizeFilename_eq)
  also have "\<dots> = collapseBy isSpace CHR ''_'' ?y" by (simp only: m)
  also have "\<dots> = ?y" by (rule collapseBy_id) (use a in auto)
  finally show ?thesis .
qed

text \<open>
  Claim C10.  \<open>sanitizeFilename\<close> replaces each of the characters \<^verbatim>\<open>< > : " / \ | ? *\<close> by
  an underscore and then every run of white space by one underscore, and it is idempotent:
  applied to its own output it changes nothing.
\<close>

theorem sanitizeFilename_spec:
  "sanitizeFilename x = collapseBy isSpace CHR ''_'' (map (\<lambda>c. if c \<in> set invalidChars then CHR ''_'' else c) x)
   \<and> sanitizeFilename (sanitizeFilename x) = sanitizeFilename x"
  using sanitizeFilename_eq sanitizeFilename_idem by blast

theorem sanitizeFilename_spec_witness:
  "sanitizeFilename ''a b:c'' = ''a_b_c'' \<and> sanitizeFilename (sanitizeFilename ''a b:c'') = ''a_b_c''"
proof -
  have e: "collapseBy isSpace CHR ''_'' (map (\<lambda>c. if c \<in> set invalidChars then CHR ''_'' else c) ''a b:c'') = ''a_b_c''"
    by code_simp
  have 1: "sanitizeFilename ''a b:c'' = ''a_b_c''"
    using sanitizeFilename_spec[of "''a b:c''", THEN conjunct1] e by (rule trans)
  have 2: "sanitizeFilename (sanitizeFilename ''a b:c'') = ''a_b_c''"
    using sanitizeFilename_spec[of "''a b:c''", THEN conjunct2] 1 by (rule trans)
  show ?thesis using 1 2 by (rule conjI)
qed

section \<open>Lemmas on matching with a text left open\<close>

lemma canon_False [simp]: "canon False c = c"
  by (simp add: canon_def)


lemma star_greedy_Cons:
  "m ic (Star Greedy (Cls n it)) (b, x # xs, c) k =
     (if clsMatch ic n it x
      then (case m ic (Star Greedy (Cls n it)) (False, xs, c) k of Some r \<Rightarrow> Some r | None \<Rightarrow> k (b, x # xs, c))
      else k (b, x # xs, c))"
  by (subst m_star_greedy) simp


















section \<open>The link resolver\<close>








section \<open>The normalizer passes through what no rule matches\<close>

lemma upperChar_lt: "(upperChar x = CHR ''<'') = (x = CHR ''<'')"
proof
  assume u: "upperChar x = CHR ''<''"
  show "x = CHR ''<''"
  proof (cases "x \<in> set lowers")
    case False
    then show ?thesis using u by (simp add: upperChar_id)
  next
    case True
    then obtain y where "map_of (zip lowers uppers) x = Some y"
      by (metis length_lowers_uppers map_of_zip_is_Some)
    then have "upperChar x \<in> set uppers"
      by (auto simp: upperChar_def dest: map_of_SomeD set_zip_rightD)
    then show ?thesis using u by (simp add: uppers_def)
  qed
next
  assume "x = CHR ''<''"
  then show "upperChar x = CHR ''<''" by (simp add: upperChar_id lowers_def)
qed

lemma canon_lt: "(canon ic CHR ''<'' = canon ic x) = (x = CHR ''<'')"
  using upperChar_lt[of x] upperChar_lt[of "CHR ''<''"] by (auto simp: canon_def)

lemma litMatch_lt: "x \<noteq> CHR ''<'' \<Longrightarrow> litMatch ic (CHR ''<'' # l) (x # t) = None"
  by (simp add: canon_lt)













section \<open>The text-protection pass\<close>

text \<open>
  Claim C1.  The text-protection pass leaves the content of every fenced code block and of
  every literal table as it was.  The code puts a block back with
  \<^verbatim>\<open>markdown.replace(token, block)\<close>, where the block is read as a replacement template: a
  block with \<^verbatim>\<open>$$\<close> comes back with one dollar.
\<close>

theorem textProtection_code_block_dollar:
  "textProtection ''```\<newline>echo $$\<newline>```'' = ''```\<newline>echo $\<newline>```''"
  by code_simp

text \<open>
  Claim C2.  The text-protection pass applied twice gives what it gives applied once.  The
  code wraps a capitalised tag without looking for a backquote behind it, so the second pass
  wraps it once more.
\<close>

theorem textProtection_twice:
  "textProtection ''<Model>'' = [CHR 0x60] @ ''<Model>'' @ [CHR 0x60]
   \<and> textProtection (textProtection ''<Model>'') = [CHR 0x60, CHR 0x60] @ ''<Model>'' @ [CHR 0x60, CHR 0x60]"
  by code_simp

section \<open>Code macros\<close>

text \<open>
  Claim C3.  A code macro with a \<open>CDATA\<close> body becomes a \<open>pre\<close>/\<open>code\<close> block that holds the
  body with tabs turned into line feeds and \<^verbatim>\<open>&\<close>, \<^verbatim>\<open><\<close>, \<^verbatim>\<open>>\<close> escaped.  The example of
  the specification comes out as stated; but the rule that removes \<open>svg\<close> elements runs on
  the whole page before the code macros are read, and a body that shows an \<open>svg\<close> element
  comes out empty.
\<close>

theorem code_macro_svg_body:
  "preprocessConfluenceHtml noProto
     ''<ac:structured-macro ac:name=\"code\"><ac:parameter ac:name=\"language\">xml</ac:parameter><ac:plain-text-body><![CDATA[<element attr=\"value\" />]]></ac:plain-text-body></ac:structured-macro>''
     ''test-page'' []
   = ''<pre><code class=\"language-xml\">&lt;element attr=\"value\" /&gt;</code></pre>''
   \<and> preprocessConfluenceHtml noProto
     ''<ac:structured-macro ac:name=\"code\"><ac:parameter ac:name=\"language\">xml</ac:parameter><ac:plain-text-body><![CDATA[<svg><path d=\"M0 0\"/></svg>]]></ac:plain-text-body></ac:structured-macro>''
     ''test-page'' []
   = ''<pre><code class=\"language-xml\"></code></pre>''"
proof (rule conjI)
  show "preprocessConfluenceHtml noProto
     ''<ac:structured-macro ac:name=\"code\"><ac:parameter ac:name=\"language\">xml</ac:parameter><ac:plain-text-body><![CDATA[<element attr=\"value\" />]]></ac:plain-text-body></ac:structured-macro>''
     ''test-page'' []
   = ''<pre><code class=\"language-xml\">&lt;element attr=\"value\" /&gt;</code></pre>''"
    by code_simp
  show "preprocessConfluenceHtml noProto
     ''<ac:structured-macro ac:name=\"code\"><ac:parameter ac:name=\"language\">xml</ac:parameter><ac:plain-text-body><![CDATA[<svg><path d=\"M0 0\"/></svg>]]></ac:plain-text-body></ac:structured-macro>''
     ''test-page'' []
   = ''<pre><code class=\"language-xml\"></code></pre>''"
    by code_simp
qed

section \<open>Pages with parts left open\<close>




















section \<open>Panel macros\<close>











section \<open>Header rows of tables\<close>



lemma space_lt: "m ic (Star Greedy space) (b, CHR ''<'' # t, c) k = k (b, CHR ''<'' # t, c)"
  by (simp add: star_greedy_Cons space_def clsMatch_def isSpace_def)



















section \<open>Links to pages\<close>





































end
